theory Spec2Isabelle
  imports Complex_Main "HOL-Library.Sublist"
begin

section \<open>School-MCP setup helper (\<^verbatim>\<open>setup_helper.py\<close>)\<close>

text \<open>
  The setup helper finds the configuration file of the desktop host, resolves a Python
  runtime, the \<^verbatim>\<open>school_mcp\<close> package and the \<^verbatim>\<open>school-mcp\<close> launcher, reads the
  credentials from \<^verbatim>\<open>.env\<close> and writes one entry, \<^verbatim>\<open>mcpServers["school-tools"]\<close>, into the
  host's JSON configuration.

  The embedding is shallow. Python values are HOL values, a raised exception is the left
  summand of a sum type, and everything the script asks of the operating system (the file
  system, the search path, subprocesses, the import system, the operator's answers) is a
  field of the record \<open>world\<close>, read where the script makes the call.
\<close>

subsection \<open>Exceptions\<close>

text \<open>
  The exception classes that the script itself names or that its statements raise. All of
  them are subclasses of \<^verbatim>\<open>Exception\<close>; \<^verbatim>\<open>KeyboardInterrupt\<close> is not modelled.
  \<open>ImportError\<close> stands for the class and its subclass \<^verbatim>\<open>ModuleNotFoundError\<close>.
\<close>

datatype py_error =
    TypeError
  | KeyError
  | ValueError
  | ImportError
  | FileNotFoundError
  | JSONDecodeError
  | UnicodeDecodeError
  | PermissionError
  | OSError
  | EOFError

subsection \<open>Strings\<close>

text \<open>
  A Python \<^verbatim>\<open>str\<close> is modelled as a \<open>string\<close>, so code points are limited to those below
  256. \<open>is_space\<close> lists the characters of that range for which \<^verbatim>\<open>str.isspace\<close> holds;
  these are the ones \<^verbatim>\<open>str.strip()\<close> removes.
\<close>

definition is_space :: "char \<Rightarrow> bool" where
  "is_space c \<longleftrightarrow>
     c \<in> set [CHR 0x09, CHR 0x0A, CHR 0x0B, CHR 0x0C, CHR 0x0D,
               CHR 0x1C, CHR 0x1D, CHR 0x1E, CHR 0x1F, CHR 0x20, CHR 0x85, CHR 0xA0]"

definition py_strip :: "string \<Rightarrow> string" where
  "py_strip s = rev (dropWhile is_space (rev (dropWhile is_space s)))"

text \<open>\<^verbatim>\<open>str.lower()\<close>: the letters A to Z and the upper-case letters of Latin-1.\<close>

definition lower_char :: "char \<Rightarrow> char" where
  "lower_char c =
     (let n = (of_char c :: nat)
      in if (65 \<le> n \<and> n \<le> 90) \<or> (192 \<le> n \<and> n \<le> 222 \<and> n \<noteq> 215)
         then char_of (n + 32) else c)"

definition py_lower :: "string \<Rightarrow> string" where
  "py_lower s = map lower_char s"

text \<open>\<^verbatim>\<open>needle in haystack\<close> on two strings: the needle occurs as a contiguous run.\<close>

fun str_contains :: "string \<Rightarrow> string \<Rightarrow> bool" where
  "str_contains needle [] = (needle = [])"
| "str_contains needle (c # cs) = (prefix needle (c # cs) \<or> str_contains needle cs)"

text \<open>Truthiness of a value that is \<^verbatim>\<open>None\<close> or a \<^verbatim>\<open>str\<close>, as in \<^verbatim>\<open>if script_path:\<close>.\<close>

fun truthy :: "string option \<Rightarrow> bool" where
  "truthy None = False"
| "truthy (Some s) = (s \<noteq> [])"

subsection \<open>JSON documents and Python dictionaries\<close>

text \<open>
  What \<^verbatim>\<open>json.load\<close> returns. A \<^verbatim>\<open>dict\<close> keeps its keys in insertion order, so an object is
  an association list. The literals \<^verbatim>\<open>NaN\<close> and \<^verbatim>\<open>Infinity\<close>, which the decoder accepts as
  well, have no counterpart in \<open>JFloat\<close>; the script treats every number alike.
\<close>

datatype json =
    JNull
  | JBool bool
  | JInt int
  | JFloat real
  | JStr string
  | JArr "json list"
  | JObj "(string \<times> json) list"

text \<open>\<^verbatim>\<open>d[k] = v\<close>: an existing key keeps its place, a new key goes to the end.\<close>

fun dict_set :: "('k \<times> 'v) list \<Rightarrow> 'k \<Rightarrow> 'v \<Rightarrow> ('k \<times> 'v) list" where
  "dict_set [] k v = [(k, v)]"
| "dict_set ((k', v') # kvs) k v =
     (if k' = k then (k, v) # kvs else (k', v') # dict_set kvs k v)"

text \<open>\<^verbatim>\<open>k in d\<close> and \<^verbatim>\<open>d[k]\<close> on a dictionary.\<close>

definition dict_has :: "('k \<times> 'v) list \<Rightarrow> 'k \<Rightarrow> bool" where
  "dict_has kvs k \<longleftrightarrow> k \<in> set (map fst kvs)"

definition dict_get :: "('k \<times> 'v) list \<Rightarrow> 'k \<Rightarrow> py_error + 'v" where
  "dict_get kvs k = (case map_of kvs k of None \<Rightarrow> Inl KeyError | Some v \<Rightarrow> Inr v)"

text \<open>The other entries of a dictionary, in their order.\<close>

definition others :: "'k \<Rightarrow> ('k \<times> 'v) list \<Rightarrow> ('k \<times> 'v) list" where
  "others k kvs = filter (\<lambda>p. fst p \<noteq> k) kvs"

subsection \<open>The merge (lines 163 to 165 and 248)\<close>

text \<open>
  \<^verbatim>\<open>
  if 'mcpServers' not in config:
      config['mcpServers'] = {}
  \<close>
  \<open>config\<close> is whatever the decoder returned. On a list \<^verbatim>\<open>in\<close> compares the elements,
  on a string it looks for a substring, on \<^verbatim>\<open>None\<close>, a \<^verbatim>\<open>bool\<close> or a number it raises
  \<^verbatim>\<open>TypeError\<close>; the assignment raises \<^verbatim>\<open>TypeError\<close> on a list and on a string.
\<close>

fun ensure_mcp_servers :: "json \<Rightarrow> py_error + json" where
  "ensure_mcp_servers (JObj kvs) =
     (if \<not> dict_has kvs ''mcpServers''
      then Inr (JObj (dict_set kvs ''mcpServers'' (JObj [])))
      else Inr (JObj kvs))"
| "ensure_mcp_servers (JArr xs) =
     (if JStr ''mcpServers'' \<notin> set xs then Inl TypeError else Inr (JArr xs))"
| "ensure_mcp_servers (JStr s) =
     (if \<not> str_contains ''mcpServers'' s then Inl TypeError else Inr (JStr s))"
| "ensure_mcp_servers JNull = Inl TypeError"
| "ensure_mcp_servers (JBool b) = Inl TypeError"
| "ensure_mcp_servers (JInt i) = Inl TypeError"
| "ensure_mcp_servers (JFloat r) = Inl TypeError"

text \<open>
  \<^verbatim>\<open>config['mcpServers']['school-tools'] = school_mcp_config\<close>: the subscript
  \<^verbatim>\<open>config['mcpServers']\<close> is defined on a dictionary only (a missing key raises
  \<^verbatim>\<open>KeyError\<close>), and so is the assignment to the value it returns.
\<close>

fun set_item :: "json \<Rightarrow> string \<Rightarrow> json \<Rightarrow> py_error + json" where
  "set_item (JObj kvs) k v = Inr (JObj (dict_set kvs k v))"
| "set_item _ k v = Inl TypeError"

fun set_school_tools :: "json \<Rightarrow> json \<Rightarrow> py_error + json" where
  "set_school_tools (JObj kvs) entry =
     (case dict_get kvs ''mcpServers'' of
        Inl e \<Rightarrow> Inl e
      | Inr servers \<Rightarrow>
          (case set_item servers ''school-tools'' entry of
             Inl e \<Rightarrow> Inl e
           | Inr servers' \<Rightarrow> Inr (JObj (dict_set kvs ''mcpServers'' servers'))))"
| "set_school_tools _ entry = Inl TypeError"

text \<open>The two statements one after the other: the merge of an entry into a document.\<close>

definition merge_config :: "json \<Rightarrow> json \<Rightarrow> py_error + json" where
  "merge_config config entry =
     (case ensure_mcp_servers config of
        Inl e \<Rightarrow> Inl e
      | Inr config' \<Rightarrow> set_school_tools config' entry)"

text \<open>The server entries of a document: the \<^verbatim>\<open>mcpServers\<close> object, if there is one.\<close>

definition servers_of :: "(string \<times> json) list \<Rightarrow> (string \<times> json) list" where
  "servers_of kvs = (case map_of kvs ''mcpServers'' of Some (JObj srv) \<Rightarrow> srv | _ \<Rightarrow> [])"

text \<open>The documents on which the merge goes through.\<close>

fun mergeable :: "json \<Rightarrow> bool" where
  "mergeable (JObj kvs) =
     (case map_of kvs ''mcpServers'' of None \<Rightarrow> True | Some (JObj srv) \<Rightarrow> True | Some _ \<Rightarrow> False)"
| "mergeable _ = False"

subsection \<open>The world outside the script\<close>

text \<open>
  One field for each question the script asks its environment. A field holds the answer;
  where the call can raise, the answer is a sum with the exception on the left.
  \<open>subprocess_run w exe\<close> is the captured standard output of
  \<^verbatim>\<open>subprocess.run([exe, "-c", "import school_mcp; print('Found')"], ...)\<close>,
  \<open>import_school_mcp\<close> is the value of
  \<^verbatim>\<open>os.path.dirname(os.path.abspath(school_mcp.__file__))\<close> after the import,
  \<open>os_walk\<close> is the sequence of triples that \<^verbatim>\<open>os.walk\<close> yields,
  \<open>read_json\<close> is \<^verbatim>\<open>json.load\<close> on the opened file, \<open>read_text\<close> is the decoded text of a
  file with its line ends translated to \<^verbatim>\<open>\n\<close>, and \<open>input_reply\<close> is what \<^verbatim>\<open>input\<close> returns at
  each of the three prompts.
\<close>

datatype prompt = AskTemplate | AskContinue | AskCreate

record world =
  sys_platform :: string
  sys_executable :: string
  environ :: "string \<Rightarrow> string option"
  home :: string
  os_getcwd :: string
  path_join :: "string \<Rightarrow> string \<Rightarrow> string"
  path_dirname :: "string \<Rightarrow> string"
  path_exists :: "string \<Rightarrow> bool"
  shutil_which :: "string \<Rightarrow> string option"
  subprocess_run :: "string \<Rightarrow> py_error + string"
  import_school_mcp :: "py_error + string"
  site_packages :: "string list"
  os_walk :: "string \<Rightarrow> (string \<times> string list \<times> string list) list"
  read_json :: "string \<Rightarrow> py_error + json"
  read_text :: "string \<Rightarrow> py_error + string"
  input_reply :: "prompt \<Rightarrow> py_error + string"
  copy_file :: "string \<Rightarrow> string \<Rightarrow> py_error option"
  write_text :: "string \<Rightarrow> py_error option"
  write_json :: "string \<Rightarrow> json \<Rightarrow> py_error option"

subsection \<open>\<^verbatim>\<open>find_claude_config\<close> (lines 19 to 44)\<close>

definition config_name :: string where
  "config_name = ''Claude/claude_desktop_config.json''"

definition possible_locations :: "world \<Rightarrow> string list" where
  "possible_locations w =
     (if sys_platform w = ''darwin''
      then [path_join w (home w) ''Library/Application Support/Claude/claude_desktop_config.json'']
      else if sys_platform w = ''win32''
      then (let app_data = (case environ w ''APPDATA'' of None \<Rightarrow> [] | Some v \<Rightarrow> v)
            in if app_data \<noteq> [] then [path_join w app_data config_name] else [])
      else (let config_home =
                  (case environ w ''XDG_CONFIG_HOME'' of
                     None \<Rightarrow> path_join w (home w) ''.config''
                   | Some v \<Rightarrow> v)
            in [path_join w config_home config_name]))"

definition find_claude_config :: "world \<Rightarrow> string option" where
  "find_claude_config w = List.find (path_exists w) (possible_locations w)"

subsection \<open>\<^verbatim>\<open>get_package_path\<close> (lines 46 to 70)\<close>

text \<open>The loop over \<^verbatim>\<open>site.getsitepackages()\<close>.\<close>

fun scan_site_packages :: "world \<Rightarrow> string list \<Rightarrow> string option" where
  "scan_site_packages w [] = None"
| "scan_site_packages w (site_dir # rest) =
     (let potential_path = path_join w site_dir ''school_mcp''
      in if path_exists w potential_path then Some potential_path
         else scan_site_packages w rest)"

text \<open>The loop over \<^verbatim>\<open>os.walk(current_dir)\<close>.\<close>

fun walk_tree :: "world \<Rightarrow> (string \<times> string list \<times> string list) list \<Rightarrow> string option" where
  "walk_tree w [] = None"
| "walk_tree w ((base, dirs, files) # rest) =
     (if ''school_mcp'' \<in> set dirs then Some (path_join w base ''school_mcp'')
      else walk_tree w rest)"

text \<open>
  Only \<^verbatim>\<open>ImportError\<close> is handled; any other exception of the import leaves the function.
\<close>

definition get_package_path :: "world \<Rightarrow> py_error + string option" where
  "get_package_path w =
     (case import_school_mcp w of
        Inr dir \<Rightarrow> Inr (Some dir)
      | Inl e \<Rightarrow>
          if e \<noteq> ImportError then Inl e
          else (case scan_site_packages w (site_packages w) of
                  Some p \<Rightarrow> Inr (Some p)
                | None \<Rightarrow>
                    (let current_dir = os_getcwd w;
                         src_path = path_join w (path_join w current_dir ''src'') ''school_mcp''
                     in if path_exists w src_path then Inr (Some src_path)
                        else (case walk_tree w (os_walk w current_dir) of
                                Some p \<Rightarrow> Inr (Some p)
                              | None \<Rightarrow> Inr None))))"

subsection \<open>\<^verbatim>\<open>find_python_executable\<close> (lines 72 to 102)\<close>

text \<open>
  The body of each \<^verbatim>\<open>try\<close>: run the probe and look for the sentinel in its output. An
  exception of \<^verbatim>\<open>subprocess.run\<close> is caught by \<^verbatim>\<open>except Exception\<close>, and the candidate is
  given up.
\<close>

definition probe :: "world \<Rightarrow> string \<Rightarrow> bool" where
  "probe w exe =
     (case subprocess_run w exe of
        Inl e \<Rightarrow> False
      | Inr out \<Rightarrow> str_contains ''Found'' out)"

definition python_cmds :: "string list" where
  "python_cmds =
     [''python'', ''python3'', ''python3.8'', ''python3.9'', ''python3.10'', ''python3.11'']"

fun try_python_cmds :: "world \<Rightarrow> string list \<Rightarrow> string option" where
  "try_python_cmds w [] = None"
| "try_python_cmds w (python_cmd # rest) =
     (case shutil_which w python_cmd of
        None \<Rightarrow> try_python_cmds w rest
      | Some python_path \<Rightarrow>
          if python_path \<noteq> [] \<and> probe w python_path then Some python_path
          else try_python_cmds w rest)"

definition find_python_executable :: "world \<Rightarrow> string" where
  "find_python_executable w =
     (let current_python = sys_executable w
      in if probe w current_python then current_python
         else (case try_python_cmds w python_cmds of
                 Some python_path \<Rightarrow> python_path
               | None \<Rightarrow> sys_executable w))"

subsection \<open>\<^verbatim>\<open>get_script_path\<close> (lines 104 to 125)\<close>

definition script_name :: "world \<Rightarrow> string" where
  "script_name w =
     (if sys_platform w = ''win32'' then ''school-mcp'' @ ''.exe'' else ''school-mcp'')"

definition get_script_path :: "world \<Rightarrow> string option" where
  "get_script_path w =
     (let script_path = shutil_which w (script_name w)
      in if truthy script_path then script_path
         else (let python_path = find_python_executable w;
                   scripts_dir = path_join w (path_dirname w python_path)
                                   (if sys_platform w = ''win32'' then ''Scripts'' else ''bin'');
                   potential_script = path_join w scripts_dir (script_name w)
               in if path_exists w potential_script then Some potential_script else None))"

subsection \<open>\<^verbatim>\<open>load_env_file\<close> (lines 127 to 141)\<close>

text \<open>Iterating over a text file yields its lines, each with its \<^verbatim>\<open>\n\<close> when it has one.\<close>

fun file_lines :: "string \<Rightarrow> string list" where
  "file_lines [] = []"
| "file_lines (c # cs) =
     (if c = CHR 0x0A then [c] # file_lines cs
      else (case file_lines cs of [] \<Rightarrow> [[c]] | l # ls \<Rightarrow> (c # l) # ls))"

text \<open>
  \<^verbatim>\<open>key, value = line.split('=', 1)\<close>: the split yields one piece when the line has no
  \<^verbatim>\<open>=\<close>, and unpacking one piece into two names raises \<^verbatim>\<open>ValueError\<close>.
\<close>

definition split_once :: "string \<Rightarrow> py_error + (string \<times> string)" where
  "split_once line =
     (if CHR ''='' \<in> set line
      then Inr (takeWhile (\<lambda>c. c \<noteq> CHR ''='') line, tl (dropWhile (\<lambda>c. c \<noteq> CHR ''='') line))
      else Inl ValueError)"

fun parse_env_lines ::
  "string list \<Rightarrow> (string \<times> string) list \<Rightarrow> py_error + (string \<times> string) list" where
  "parse_env_lines [] env_vars = Inr env_vars"
| "parse_env_lines (raw # rest) env_vars =
     (let line = py_strip raw
      in if line = [] \<or> prefix ''#'' line then parse_env_lines rest env_vars
         else (case split_once line of
                 Inl e \<Rightarrow> Inl e
               | Inr (key, val) \<Rightarrow>
                   parse_env_lines rest (dict_set env_vars (py_strip key) (py_strip val))))"

definition load_env_file :: "world \<Rightarrow> string \<Rightarrow> py_error + (string \<times> string) list" where
  "load_env_file w env_path =
     (if path_exists w env_path
      then (case read_text w env_path of
              Inl e \<Rightarrow> Inl e
            | Inr text \<Rightarrow> parse_env_lines (file_lines text) [])
      else Inr [])"

subsection \<open>\<^verbatim>\<open>print_manual_instructions\<close> (lines 264 to 307)\<close>

text \<open>The example that the instructions print, as the JSON value handed to \<^verbatim>\<open>json.dumps\<close>.\<close>

definition placeholder_env :: json where
  "placeholder_env =
     JObj [(''CANVAS_ACCESS_TOKEN'', JStr ''your_canvas_token_here''),
           (''CANVAS_DOMAIN'', JStr ''canvas.your_institution.edu''),
           (''GRADESCOPE_EMAIL'', JStr ''your_email@your_institution.edu''),
           (''GRADESCOPE_PASSWORD'', JStr ''your_gradescope_password'')]"

definition print_manual_instructions :: "world \<Rightarrow> json" where
  "print_manual_instructions w =
     (let script_path = get_script_path w;
          python_path = find_python_executable w;
          module_form = JObj [(''command'', JStr python_path),
                              (''args'', JArr [JStr ''-m'', JStr ''school_mcp'']),
                              (''env'', placeholder_env)]
      in JObj [(''mcpServers'',
                JObj [(''school-tools'',
                       (case script_path of
                          None \<Rightarrow> module_form
                        | Some p \<Rightarrow>
                            if p \<noteq> [] then JObj [(''command'', JStr p), (''env'', placeholder_env)]
                            else module_form))])])"

subsection \<open>\<^verbatim>\<open>setup_claude_config\<close> (lines 143 to 262)\<close>

text \<open>
  What a run leaves behind: the value \<^verbatim>\<open>setup_claude_config\<close> returns or the exception that
  leaves it, the manual instructions if they were printed, whether a \<^verbatim>\<open>.env\<close> file was
  created and from what, the document handed to the write-back when the run gets there,
  and whether that write went through. The progress messages are left out.
\<close>

datatype env_source = FromTemplate | FromSkeleton

record run =
  returned :: "py_error + bool"
  manual :: "json option"
  env_created :: "env_source option"
  write_attempt :: "json option"
  write_done :: bool

definition finish :: "py_error + bool \<Rightarrow> run" where
  "finish r = \<lparr>returned = r, manual = None, env_created = None,
               write_attempt = None, write_done = False\<rparr>"

text \<open>Lines 155 to 161: the read, with the two exceptions that the handler names.\<close>

definition read_config :: "world \<Rightarrow> string \<Rightarrow> py_error + json" where
  "read_config w config_file =
     (case read_json w config_file of
        Inr config \<Rightarrow> Inr config
      | Inl e \<Rightarrow>
          if e = JSONDecodeError \<or> e = FileNotFoundError then Inr (JObj []) else Inl e)"

text \<open>Lines 230 to 245: the entry.\<close>

definition env_json :: "(string \<times> string) list \<Rightarrow> json" where
  "env_json env_vars = JObj (map (\<lambda>(k, v). (k, JStr v)) env_vars)"

definition module_entry :: "string \<Rightarrow> (string \<times> json) list" where
  "module_entry python_path =
     [(''command'', JStr python_path), (''args'', JArr [JStr ''-m'', JStr ''school_mcp''])]"

definition school_mcp_config ::
  "string option \<Rightarrow> string \<Rightarrow> (string \<times> string) list \<Rightarrow> (string \<times> json) list" where
  "school_mcp_config script_path python_path env_vars =
     (let fields =
            (case script_path of
               None \<Rightarrow> module_entry python_path
             | Some p \<Rightarrow> if p \<noteq> [] then [(''command'', JStr p)] else module_entry python_path)
      in if env_vars \<noteq> [] then dict_set fields ''env'' (env_json env_vars) else fields)"

text \<open>Lines 196 to 228: load the variables, or offer to create the file.\<close>

definition required_vars :: "string list" where
  "required_vars =
     [''CANVAS_ACCESS_TOKEN'', ''CANVAS_DOMAIN'', ''GRADESCOPE_EMAIL'', ''GRADESCOPE_PASSWORD'']"

definition yes :: "string \<Rightarrow> bool" where
  "yes answer \<longleftrightarrow> answer = ''y'' \<or> answer = ''yes''"

definition load_variables :: "world \<Rightarrow> string \<Rightarrow> run + (string \<times> string) list" where
  "load_variables w env_path =
     (if path_exists w env_path
      then (case load_env_file w env_path of
              Inl e \<Rightarrow> Inl (finish (Inl e))
            | Inr env_vars \<Rightarrow>
                (let missing_vars = filter (\<lambda>var. \<not> dict_has env_vars var) required_vars
                 in if missing_vars \<noteq> []
                    then (case input_reply w AskContinue of
                            Inl e \<Rightarrow> Inl (finish (Inl e))
                          | Inr answer \<Rightarrow>
                              (let continue_anyway = py_lower (py_strip answer)
                               in if \<not> yes continue_anyway then Inl (finish (Inr False))
                                  else Inr env_vars))
                    else Inr env_vars))
      else (case input_reply w AskCreate of
              Inl e \<Rightarrow> Inl (finish (Inl e))
            | Inr answer \<Rightarrow>
                (let create_env = py_lower (py_strip answer)
                 in if create_env = [] \<or> yes create_env
                    then (case write_text w env_path of
                            Some e \<Rightarrow> Inl (finish (Inl e))
                          | None \<Rightarrow> Inl ((finish (Inr False))\<lparr>env_created := Some FromSkeleton\<rparr>))
                    else Inr [])))"

text \<open>Lines 183 to 228: the offer to copy the template comes first.\<close>

definition resolve_credentials :: "world \<Rightarrow> run + (string \<times> string) list" where
  "resolve_credentials w =
     (let env_path = path_join w (os_getcwd w) ''.env''
      in if \<not> path_exists w env_path
         then (let template_path = path_join w (os_getcwd w) ''.env.template''
               in if path_exists w template_path
                  then (case input_reply w AskTemplate of
                          Inl e \<Rightarrow> Inl (finish (Inl e))
                        | Inr answer \<Rightarrow>
                            (let use_template = py_lower (py_strip answer)
                             in if use_template = [] \<or> yes use_template
                                then (case copy_file w template_path env_path of
                                        Some e \<Rightarrow> Inl (finish (Inl e))
                                      | None \<Rightarrow>
                                          Inl ((finish (Inr False))
                                                 \<lparr>env_created := Some FromTemplate\<rparr>))
                                else load_variables w env_path))
                  else load_variables w env_path)
         else load_variables w env_path)"

text \<open>Lines 250 to 262: the write-back and its handler.\<close>

definition write_back :: "world \<Rightarrow> string \<Rightarrow> json \<Rightarrow> run" where
  "write_back w config_file config =
     (case write_json w config_file config of
        None \<Rightarrow> (finish (Inr True))\<lparr>write_attempt := Some config, write_done := True\<rparr>
      | Some e \<Rightarrow>
          (finish (Inr False))\<lparr>manual := Some (print_manual_instructions w),
                                 write_attempt := Some config\<rparr>)"

text \<open>Lines 163 to 262: everything after the read, from the decoded document on.\<close>

definition setup_with_config :: "world \<Rightarrow> string \<Rightarrow> json \<Rightarrow> run" where
  "setup_with_config w config_file config =
     (case ensure_mcp_servers config of
        Inl e \<Rightarrow> finish (Inl e)
      | Inr config' \<Rightarrow>
          (let script_path = get_script_path w
           in case get_package_path w of
                Inl e \<Rightarrow> finish (Inl e)
              | Inr package_path \<Rightarrow>
                  (let python_path = find_python_executable w
                   in if \<not> truthy package_path then finish (Inr False)
                      else (case resolve_credentials w of
                              Inl stopped \<Rightarrow> stopped
                            | Inr env_vars \<Rightarrow>
                                (case set_school_tools config'
                                        (JObj (school_mcp_config script_path python_path env_vars)) of
                                   Inl e \<Rightarrow> finish (Inl e)
                                 | Inr config'' \<Rightarrow> write_back w config_file config'')))))"

definition setup_claude_config :: "world \<Rightarrow> run" where
  "setup_claude_config w =
     (case find_claude_config w of
        None \<Rightarrow> (finish (Inr False))\<lparr>manual := Some (print_manual_instructions w)\<rparr>
      | Some config_file \<Rightarrow>
          (case read_config w config_file of
             Inl e \<Rightarrow> finish (Inl e)
           | Inr config \<Rightarrow> setup_with_config w config_file config))"

subsection \<open>\<^verbatim>\<open>main\<close> (lines 309 to 319)\<close>

text \<open>
  The process ends with \<^verbatim>\<open>sys.exit(0 if success else 1)\<close>, or, when an exception leaves
  \<^verbatim>\<open>setup_claude_config\<close>, with the interpreter's traceback, whose exit status is 1.
\<close>

datatype outcome = SysExit int | Traceback py_error

definition main :: "world \<Rightarrow> outcome" where
  "main w =
     (case returned (setup_claude_config w) of
        Inl e \<Rightarrow> Traceback e
      | Inr success \<Rightarrow> SysExit (if success then 0 else 1))"

fun exit_status :: "outcome \<Rightarrow> int" where
  "exit_status (SysExit n) = n"
| "exit_status (Traceback e) = 1"

subsection \<open>The specification's reading of the resolvers\<close>

text \<open>
  The runtime resolver in the words of the specification: the candidates are the current
  runtime followed by the alternate names that the search path resolves, in the fixed
  order, and the answer is the first candidate whose probe succeeds, or the current
  runtime when there is none.
\<close>

definition alternates :: "world \<Rightarrow> string list" where
  "alternates w =
     concat (map (\<lambda>python_cmd.
                    case shutil_which w python_cmd of
                      None \<Rightarrow> []
                    | Some p \<Rightarrow> if p \<noteq> [] then [p] else [])
                 python_cmds)"

definition first_successful_probe :: "world \<Rightarrow> string" where
  "first_successful_probe w =
     (case List.find (probe w) (sys_executable w # alternates w) of
        Some p \<Rightarrow> p
      | None \<Rightarrow> sys_executable w)"

text \<open>
  The four strategies of the package locator, each failing: the import raises
  \<^verbatim>\<open>ImportError\<close>, no site-packages directory holds the package, the local source path
  does not exist, and no directory of the walk has the package among its subdirectories.
\<close>

definition import_fails :: "world \<Rightarrow> bool" where
  "import_fails w \<longleftrightarrow> import_school_mcp w = Inl ImportError"

definition site_scan_fails :: "world \<Rightarrow> bool" where
  "site_scan_fails w \<longleftrightarrow>
     list_all (\<lambda>site_dir. \<not> path_exists w (path_join w site_dir ''school_mcp''))
       (site_packages w)"

definition source_path_fails :: "world \<Rightarrow> bool" where
  "source_path_fails w \<longleftrightarrow>
     \<not> path_exists w (path_join w (path_join w (os_getcwd w) ''src'') ''school_mcp'')"

definition tree_walk_fails :: "world \<Rightarrow> bool" where
  "tree_walk_fails w \<longleftrightarrow>
     list_all (\<lambda>(base, dirs, files). ''school_mcp'' \<notin> set dirs) (os_walk w (os_getcwd w))"

definition every_strategy_fails :: "world \<Rightarrow> bool" where
  "every_strategy_fails w \<longleftrightarrow>
     import_fails w \<and> site_scan_fails w \<and> source_path_fails w \<and> tree_walk_fails w"

subsection \<open>A sample world\<close>

text \<open>
  A Linux machine on which the configuration file and a complete \<^verbatim>\<open>.env\<close> exist, the
  package is importable by the current runtime, and no launcher script is installed.
\<close>

definition sample_env_text :: string where
  "sample_env_text =
     ''CANVAS_ACCESS_TOKEN=tok'' @ [CHR 0x0A] @
     ''CANVAS_DOMAIN=canvas.example.edu'' @ [CHR 0x0A] @
     ''GRADESCOPE_EMAIL=me@example.edu'' @ [CHR 0x0A] @
     ''GRADESCOPE_PASSWORD=pw'' @ [CHR 0x0A]"

definition sample_config :: json where
  "sample_config =
     JObj [(''theme'', JStr ''dark''),
           (''mcpServers'',
            JObj [(''files'', JObj [(''command'', JStr ''files-server'')]),
                  (''school-tools'', JObj [(''command'', JStr ''old''), (''args'', JArr [])])]),
           (''scale'', JInt 2)]"

definition sample_world :: world where
  "sample_world =
     \<lparr>sys_platform = ''linux'',
      sys_executable = ''/usr/bin/python3'',
      environ = (\<lambda>name. None),
      home = ''/home/u'',
      os_getcwd = ''/work'',
      path_join = (\<lambda>a b. a @ ''/'' @ b),
      path_dirname = (\<lambda>p. rev (tl (dropWhile (\<lambda>c. c \<noteq> CHR ''/'') (rev p)))),
      path_exists =
        (\<lambda>p. p = ''/home/u/.config/Claude/claude_desktop_config.json'' \<or> p = ''/work/.env''),
      shutil_which = (\<lambda>name. None),
      subprocess_run =
        (\<lambda>exe. if exe = ''/usr/bin/python3'' then Inr (''Found'' @ [CHR 0x0A])
               else Inl FileNotFoundError),
      import_school_mcp = Inr ''/work/src/school_mcp'',
      site_packages = [''/usr/lib/python3/site-packages''],
      os_walk = (\<lambda>dir. []),
      read_json = (\<lambda>p. Inr sample_config),
      read_text = (\<lambda>p. Inr sample_env_text),
      input_reply = (\<lambda>q. Inr ''y''),
      copy_file = (\<lambda>src dst. None),
      write_text = (\<lambda>p. None),
      write_json = (\<lambda>p doc. None)\<rparr>"

definition sample_entry :: json where
  "sample_entry =
     JObj [(''command'', JStr ''/usr/bin/python3''),
           (''args'', JArr [JStr ''-m'', JStr ''school_mcp''])]"

text \<open>The entry that a document holds under \<^verbatim>\<open>mcpServers["school-tools"]\<close>.\<close>

definition school_tools_entry :: "json \<Rightarrow> json option" where
  "school_tools_entry doc =
     (case doc of JObj kvs \<Rightarrow> map_of (servers_of kvs) ''school-tools'' | _ \<Rightarrow> None)"

text \<open>
  The place beside the resolved runtime where the script resolver looks second: the
  directory \<^verbatim>\<open>bin\<close> (\<^verbatim>\<open>Scripts\<close> on Windows) in the runtime's own directory.
\<close>

definition beside_runtime :: "world \<Rightarrow> string" where
  "beside_runtime w =
     path_join w
       (path_join w (path_dirname w (find_python_executable w))
          (if sys_platform w = ''win32'' then ''Scripts'' else ''bin''))
       (script_name w)"

text \<open>A line of the credentials file that is not blank, not a comment, and has no \<^verbatim>\<open>=\<close>.\<close>

definition malformed_line :: "string \<Rightarrow> bool" where
  "malformed_line raw \<longleftrightarrow>
     py_strip raw \<noteq> [] \<and> \<not> prefix ''#'' (py_strip raw) \<and> CHR ''='' \<notin> set raw"

text \<open>The credentials text of the specification's example.\<close>

definition example_env_text :: string where
  "example_env_text =
     ''A=1'' @ [CHR 0x0A] @ ''B=2'' @ [CHR 0x0A] @ ''# comment'' @ [CHR 0x0A, CHR 0x0A]"

text \<open>
  Variants of the sample world: a \<^verbatim>\<open>.env\<close> with a stray word on its last line, a
  configuration whose \<^verbatim>\<open>mcpServers\<close> is a list, one whose \<^verbatim>\<open>mcpServers\<close> is \<^verbatim>\<open>null\<close>, a
  \<^verbatim>\<open>.env\<close> with comments only, a machine without the package, and a disk that refuses the
  write.
\<close>

definition stray_word_world :: world where
  "stray_word_world = sample_world\<lparr>read_text := (\<lambda>p. Inr (sample_env_text @ ''DEBUG''))\<rparr>"

definition list_servers_world :: world where
  "list_servers_world =
     sample_world\<lparr>read_json := (\<lambda>p. Inr (JObj [(''mcpServers'', JArr [])]))\<rparr>"

definition null_servers_world :: world where
  "null_servers_world =
     sample_world\<lparr>read_json := (\<lambda>p. Inr (JObj [(''mcpServers'', JNull)]))\<rparr>"

definition empty_env_world :: world where
  "empty_env_world =
     sample_world\<lparr>read_text := (\<lambda>p. Inr (''# no credentials yet'' @ [CHR 0x0A]))\<rparr>"

definition no_package_world :: world where
  "no_package_world =
     sample_world\<lparr>import_school_mcp := Inl ImportError,
                  os_walk := (\<lambda>dir. [(''/work'', [''docs''], [''README.md'']),
                                     (''/work/docs'', [], [])])\<rparr>"

definition read_only_world :: world where
  "read_only_world = sample_world\<lparr>write_json := (\<lambda>p doc. Some PermissionError)\<rparr>"

text \<open>
  A configuration file whose bytes are not text in the encoding that \<^verbatim>\<open>open\<close> uses, such as
  \<^verbatim>\<open>{"a": "\xff\xfe"}\<close> or a file saved as UTF-16 on a UTF-8 machine: reading it raises
  \<^verbatim>\<open>UnicodeDecodeError\<close> inside \<^verbatim>\<open>json.load\<close>.
\<close>

definition undecodable_world :: world where
  "undecodable_world = sample_world\<lparr>read_json := (\<lambda>p. Inl UnicodeDecodeError)\<rparr>"

definition vanished_world :: world where
  "vanished_world = sample_world\<lparr>read_json := (\<lambda>p. Inl FileNotFoundError)\<rparr>"

text \<open>
  Worlds for the resolvers: one where the current runtime and \<^verbatim>\<open>python3\<close> cannot import the
  package and \<^verbatim>\<open>python3.11\<close> can, one where no probe prints the sentinel, one where every
  probe raises, one with the launcher on the search path, and one with the launcher in
  \<^verbatim>\<open>bin\<close> beside the runtime.
\<close>

definition two_pythons :: "string \<Rightarrow> string option" where
  "two_pythons name =
     (if name = ''python3'' then Some ''/opt/a/python3''
      else if name = ''python3.11'' then Some ''/opt/b/python3.11''
      else None)"

definition alternate_world :: world where
  "alternate_world =
     sample_world\<lparr>shutil_which := two_pythons,
                  subprocess_run :=
                    (\<lambda>exe. if exe = ''/opt/b/python3.11'' then Inr (''Found'' @ [CHR 0x0A])
                           else if exe = ''/opt/a/python3'' then Inr []
                           else Inl FileNotFoundError)\<rparr>"

definition silent_world :: world where
  "silent_world = sample_world\<lparr>shutil_which := two_pythons, subprocess_run := (\<lambda>exe. Inr [])\<rparr>"

definition raising_world :: world where
  "raising_world =
     sample_world\<lparr>shutil_which := two_pythons, subprocess_run := (\<lambda>exe. Inl PermissionError)\<rparr>"

definition script_world :: world where
  "script_world =
     sample_world\<lparr>shutil_which :=
                    (\<lambda>name. if name = ''school-mcp'' then Some ''/usr/local/bin/school-mcp''
                            else None)\<rparr>"

definition beside_world :: world where
  "beside_world =
     sample_world\<lparr>path_exists :=
                    (\<lambda>p. p = ''/home/u/.config/Claude/claude_desktop_config.json'' \<or>
                         p = ''/work/.env'' \<or> p = ''/usr/bin/bin/school-mcp'')\<rparr>"

section \<open>Auxiliary facts\<close>

subsection \<open>Dictionaries\<close>

lemma map_of_dict_set: "map_of (dict_set kvs k v) = (map_of kvs)(k \<mapsto> v)"
  by (induction kvs) (auto simp: fun_eq_iff)

lemma dict_set_twice: "dict_set (dict_set kvs k v) k w = dict_set kvs k w"
  by (induction kvs) auto

lemma others_dict_set: "others k (dict_set kvs k v) = others k kvs"
  by (induction kvs) (auto simp: others_def)

lemma dict_has_map_of: "dict_has kvs k \<longleftrightarrow> map_of kvs k \<noteq> None"
  by (induction kvs) (auto simp: dict_has_def)

subsection \<open>The merge\<close>

lemma merge_config_JObj:
  "merge_config (JObj kvs) entry =
     (case map_of kvs ''mcpServers'' of
        None \<Rightarrow> Inr (JObj (dict_set kvs ''mcpServers'' (JObj [(''school-tools'', entry)])))
      | Some (JObj srv) \<Rightarrow>
          Inr (JObj (dict_set kvs ''mcpServers'' (JObj (dict_set srv ''school-tools'' entry))))
      | Some _ \<Rightarrow> Inl TypeError)"
  by (auto simp: merge_config_def dict_has_map_of dict_get_def map_of_dict_set dict_set_twice
           split: option.splits json.splits)

lemma merge_config_not_JObj: "\<forall>kvs. doc \<noteq> JObj kvs \<Longrightarrow> \<exists>e. merge_config doc entry = Inl e"
  by (cases doc) (auto simp: merge_config_def)

text \<open>The merge returns a document exactly on the mergeable ones; elsewhere it raises.\<close>

lemma merge_config_Inr_iff: "(\<exists>doc'. merge_config doc entry = Inr doc') \<longleftrightarrow> mergeable doc"
proof (cases doc)
  case (JObj kvs)
  then show ?thesis
    by (auto simp: merge_config_JObj split: option.splits json.splits)
next
  case (JArr xs)
  then show ?thesis using merge_config_not_JObj [of doc entry] by auto
next
  case (JStr s)
  then show ?thesis using merge_config_not_JObj [of doc entry] by auto
qed (auto simp: merge_config_def)

lemma servers_of_dict_set: "servers_of (dict_set kvs ''mcpServers'' (JObj srv)) = srv"
  by (simp add: servers_of_def map_of_dict_set)

lemma merge_config_result:
  assumes "merge_config (JObj kvs) entry = Inr doc'"
  shows "doc' = JObj (dict_set kvs ''mcpServers''
                   (JObj (dict_set (servers_of kvs) ''school-tools'' entry)))"
  using assms
  by (auto simp: merge_config_JObj servers_of_def split: option.splits json.splits)

lemma merge_config_entry:
  assumes "merge_config config entry = Inr doc"
  shows "school_tools_entry doc = Some entry"
proof -
  from assms obtain kvs where c: "config = JObj kvs"
    using merge_config_not_JObj [of config entry] by auto
  from assms merge_config_result [of kvs entry doc] show ?thesis
    by (simp add: c school_tools_entry_def servers_of_dict_set map_of_dict_set)
qed

lemma merge_into_empty:
  "merge_config (JObj []) entry = Inr (JObj [(''mcpServers'', JObj [(''school-tools'', entry)])])"
  by (simp add: merge_config_JObj)

lemma merge_sample:
  "merge_config sample_config sample_entry =
     Inr (JObj [(''theme'', JStr ''dark''),
                (''mcpServers'',
                 JObj [(''files'', JObj [(''command'', JStr ''files-server'')]),
                       (''school-tools'', sample_entry)]),
                (''scale'', JInt 2)])"
  by (simp add: sample_config_def merge_config_JObj)

subsection \<open>The entry\<close>

lemma school_mcp_config_env:
  "dict_has (school_mcp_config sp py vars) ''env'' \<longleftrightarrow> vars \<noteq> []"
  by (auto simp: school_mcp_config_def module_entry_def dict_has_def Let_def split: option.splits)

lemma school_mcp_config_env_value:
  "vars \<noteq> [] \<Longrightarrow> map_of (school_mcp_config sp py vars) ''env'' = Some (env_json vars)"
  by (auto simp: school_mcp_config_def module_entry_def Let_def map_of_dict_set split: option.splits)

lemma school_mcp_config_module:
  "\<not> truthy sp \<Longrightarrow>
     school_mcp_config sp py vars =
       (if vars \<noteq> [] then module_entry py @ [(''env'', env_json vars)] else module_entry py)"
  by (cases sp) (auto simp: school_mcp_config_def module_entry_def Let_def)

subsection \<open>The credentials parser\<close>

lemma set_subset_py_strip: "set (py_strip s) \<subseteq> set s"
proof -
  have "set (py_strip s) \<subseteq> set (dropWhile is_space s)"
    unfolding py_strip_def using set_dropWhileD [of _ is_space "rev (dropWhile is_space s)"]
    by auto
  also have "\<dots> \<subseteq> set s"
    using set_dropWhileD [of _ is_space s] by auto
  finally show ?thesis .
qed

lemma parse_env_lines_malformed:
  "\<exists>raw \<in> set lines. malformed_line raw \<Longrightarrow> parse_env_lines lines env_vars = Inl ValueError"
proof (induction lines arbitrary: env_vars)
  case Nil
  then show ?case by simp
next
  case (Cons raw rest)
  show ?case
  proof (cases "py_strip raw = [] \<or> prefix ''#'' (py_strip raw)")
    case True
    with Cons.prems have "\<exists>raw \<in> set rest. malformed_line raw"
      by (auto simp: malformed_line_def)
    with Cons.IH True show ?thesis by (auto simp: Let_def)
  next
    case False
    show ?thesis
    proof (cases "CHR ''='' \<in> set (py_strip raw)")
      case True
      with set_subset_py_strip [of raw] have "\<not> malformed_line raw"
        by (auto simp: malformed_line_def)
      with Cons.prems have "\<exists>raw \<in> set rest. malformed_line raw" by auto
      with Cons.IH False True show ?thesis
        by (auto simp: Let_def split_once_def)
    next
      case no_eq: False
      with False show ?thesis by (auto simp: Let_def split_once_def)
    qed
  qed
qed

lemma load_env_example:
  "path_exists w p \<Longrightarrow> read_text w p = Inr example_env_text \<Longrightarrow>
     load_env_file w p = Inr [(''A'', ''1''), (''B'', ''2'')]"
  by (simp add: load_env_file_def example_env_text_def py_strip_def is_space_def split_once_def)

lemma load_env_file_malformed:
  assumes "path_exists w p" "read_text w p = Inr text"
    and "\<exists>raw \<in> set (file_lines text). malformed_line raw"
  shows "load_env_file w p = Inl ValueError"
  using assms by (simp add: load_env_file_def parse_env_lines_malformed)

subsection \<open>The resolvers\<close>

lemma try_python_cmds_find:
  "try_python_cmds w cmds =
     List.find (probe w)
       (concat (map (\<lambda>python_cmd.
                    case shutil_which w python_cmd of
                      None \<Rightarrow> []
                    | Some p \<Rightarrow> if p \<noteq> [] then [p] else []) cmds))"
  by (induction cmds) (auto split: option.splits)

lemma scan_site_packages_None:
  "scan_site_packages w ds = None \<longleftrightarrow>
     list_all (\<lambda>site_dir. \<not> path_exists w (path_join w site_dir ''school_mcp'')) ds"
  by (induction ds) (auto simp: Let_def)

lemma walk_tree_None:
  "walk_tree w ts = None \<longleftrightarrow> list_all (\<lambda>(base, dirs, files). ''school_mcp'' \<notin> set dirs) ts"
  by (induction w ts rule: walk_tree.induct) simp_all

lemma site_scan_fails_iff:
  "site_scan_fails w \<longleftrightarrow> scan_site_packages w (site_packages w) = None"
  by (simp add: site_scan_fails_def scan_site_packages_None)

lemma tree_walk_fails_iff:
  "tree_walk_fails w \<longleftrightarrow> walk_tree w (os_walk w (os_getcwd w)) = None"
  by (simp add: tree_walk_fails_def walk_tree_None)

lemma get_package_path_None_iff: "get_package_path w = Inr None \<longleftrightarrow> every_strategy_fails w"
  by (auto simp: get_package_path_def every_strategy_fails_def import_fails_def
        site_scan_fails_iff source_path_fails_def tree_walk_fails_iff Let_def
      split: sum.splits option.splits if_splits)

subsection \<open>The run\<close>

lemma finish_simps [simp]:
  "returned (finish r) = r" "manual (finish r) = None" "env_created (finish r) = None"
  "write_attempt (finish r) = None" "write_done (finish r) = False"
  by (simp_all add: finish_def)

lemma load_variables_stopped:
  "load_variables w p = Inl r \<Longrightarrow>
     write_attempt r = None \<and> manual r = None \<and> \<not> write_done r \<and> returned r \<noteq> Inr True"
  by (auto simp: load_variables_def Let_def split: if_splits sum.splits option.splits)

lemma resolve_credentials_stopped:
  "resolve_credentials w = Inl r \<Longrightarrow>
     write_attempt r = None \<and> manual r = None \<and> \<not> write_done r \<and> returned r \<noteq> Inr True"
  by (auto simp: resolve_credentials_def Let_def dest: load_variables_stopped
           split: if_splits sum.splits option.splits)

lemma load_variables_vars:
  "load_variables w p = Inr vars \<Longrightarrow> load_env_file w p = Inr vars"
  by (auto simp: load_variables_def Let_def load_env_file_def
           split: if_splits sum.splits option.splits)

lemma resolve_credentials_vars:
  "resolve_credentials w = Inr vars \<Longrightarrow>
     load_env_file w (path_join w (os_getcwd w) ''.env'') = Inr vars"
  by (auto simp: resolve_credentials_def Let_def dest: load_variables_vars
           split: if_splits sum.splits option.splits)

lemma write_back_simps:
  "write_attempt (write_back w cf doc) = Some doc"
  "write_done (write_back w cf doc) \<longleftrightarrow> write_json w cf doc = None"
  "returned (write_back w cf doc) = Inr (write_json w cf doc = None)"
  "manual (write_back w cf doc) =
     (if write_json w cf doc = None then None else Some (print_manual_instructions w))"
  by (auto simp: write_back_def split: option.splits)

lemma setup_with_config_written:
  assumes "write_attempt (setup_with_config w cf config) = Some doc"
  shows "\<exists>pkg vars. get_package_path w = Inr pkg \<and> truthy pkg \<and>
           resolve_credentials w = Inr vars \<and>
           merge_config config
             (JObj (school_mcp_config (get_script_path w) (find_python_executable w) vars))
             = Inr doc \<and>
           setup_with_config w cf config = write_back w cf doc"
  using assms
  by (auto simp: setup_with_config_def Let_def merge_config_def write_back_simps
           dest: resolve_credentials_stopped
           split: sum.splits if_splits)

lemma setup_with_config_reaches_write:
  assumes "get_package_path w = Inr pkg" "truthy pkg" "resolve_credentials w = Inr vars"
    "merge_config config
       (JObj (school_mcp_config (get_script_path w) (find_python_executable w) vars)) = Inr doc"
  shows "setup_with_config w cf config = write_back w cf doc"
  using assms
  by (auto simp: setup_with_config_def Let_def merge_config_def split: sum.splits)

lemma setup_claude_config_written:
  assumes "write_attempt (setup_claude_config w) = Some doc"
  shows "\<exists>cf config pkg vars. find_claude_config w = Some cf \<and> read_config w cf = Inr config \<and>
           get_package_path w = Inr pkg \<and> truthy pkg \<and>
           resolve_credentials w = Inr vars \<and>
           merge_config config
             (JObj (school_mcp_config (get_script_path w) (find_python_executable w) vars))
             = Inr doc \<and>
           setup_claude_config w = write_back w cf doc"
proof -
  from assms obtain cf where cf: "find_claude_config w = Some cf"
    by (auto simp: setup_claude_config_def split: option.splits)
  with assms obtain config where c: "read_config w cf = Inr config"
    by (auto simp: setup_claude_config_def split: sum.splits)
  with cf have s: "setup_claude_config w = setup_with_config w cf config"
    by (simp add: setup_claude_config_def)
  with assms setup_with_config_written [of w cf config doc] cf c show ?thesis
    by auto
qed

lemma setup_with_config_success:
  assumes "returned (setup_with_config w cf config) = Inr True"
  shows "\<exists>doc. write_attempt (setup_with_config w cf config) = Some doc \<and>
               write_json w cf doc = None \<and> write_done (setup_with_config w cf config)"
  using assms
  by (auto simp: setup_with_config_def Let_def write_back_simps
           dest: resolve_credentials_stopped
           split: sum.splits if_splits)

lemma setup_claude_config_success:
  assumes "returned (setup_claude_config w) = Inr True"
  shows "\<exists>cf doc. find_claude_config w = Some cf \<and>
           write_attempt (setup_claude_config w) = Some doc \<and>
           write_json w cf doc = None \<and> write_done (setup_claude_config w)"
  using assms setup_with_config_success
  by (auto simp: setup_claude_config_def split: option.splits sum.splits)

lemma write_done_attempt:
  "write_done (setup_claude_config w) \<Longrightarrow> \<exists>doc. write_attempt (setup_claude_config w) = Some doc"
  by (auto simp: setup_claude_config_def setup_with_config_def Let_def write_back_simps
           dest: resolve_credentials_stopped
           split: option.splits sum.splits if_splits)

lemma exit_status_main:
  "exit_status (main w) = (if returned (setup_claude_config w) = Inr True then 0 else 1)"
  by (auto simp: main_def split: sum.splits)

lemma write_failure_reported:
  "write_json w cf doc = Some e \<Longrightarrow>
     write_back w cf doc =
       (finish (Inr False))\<lparr>manual := Some (print_manual_instructions w),
                              write_attempt := Some doc\<rparr>"
  by (simp add: write_back_def)

lemma read_only_run:
  "main read_only_world = SysExit 1 \<and>
   manual (setup_claude_config read_only_world)
     = Some (print_manual_instructions read_only_world) \<and>
   \<not> write_done (setup_claude_config read_only_world)"
  by code_simp

lemma mergeable_run_outcomes:
  assumes "find_claude_config w = Some cf" "read_config w cf = Inr config" "mergeable config"
    "get_package_path w = Inr pkg" "truthy pkg" "resolve_credentials w = Inr vars"
  shows "main w = SysExit 0 \<and> write_done (setup_claude_config w) \<or>
         main w = SysExit 1 \<and> manual (setup_claude_config w) = Some (print_manual_instructions w)"
proof -
  from assms obtain doc where "merge_config config
       (JObj (school_mcp_config (get_script_path w) (find_python_executable w) vars)) = Inr doc"
    using merge_config_Inr_iff by blast
  with assms have "setup_claude_config w = write_back w cf doc"
    using setup_with_config_reaches_write [of w pkg vars config doc cf]
    by (simp add: setup_claude_config_def)
  then show ?thesis
    by (cases "write_json w cf doc") (simp_all add: main_def write_back_def)
qed

subsection \<open>The run does not depend on the read beyond the decoded document\<close>

lemma probe_read_json [simp]: "probe (w\<lparr>read_json := r\<rparr>) exe = probe w exe"
  by (simp add: probe_def)

lemma try_python_cmds_read_json [simp]:
  "try_python_cmds (w\<lparr>read_json := r\<rparr>) cmds = try_python_cmds w cmds"
  by (induction cmds) (simp_all cong: option.case_cong if_cong)

lemma scan_site_packages_read_json [simp]:
  "scan_site_packages (w\<lparr>read_json := r\<rparr>) ds = scan_site_packages w ds"
  by (induction ds) (simp_all add: Let_def)

lemma walk_tree_read_json [simp]:
  "walk_tree (w\<lparr>read_json := r\<rparr>) ts = walk_tree w ts"
  by (induction ts) auto

lemma find_python_executable_read_json [simp]:
  "find_python_executable (w\<lparr>read_json := r\<rparr>) = find_python_executable w"
  by (simp add: find_python_executable_def Let_def split: option.split)

lemma get_script_path_read_json [simp]:
  "get_script_path (w\<lparr>read_json := r\<rparr>) = get_script_path w"
  by (simp add: get_script_path_def script_name_def Let_def)

lemma get_package_path_read_json [simp]:
  "get_package_path (w\<lparr>read_json := r\<rparr>) = get_package_path w"
  by (simp add: get_package_path_def Let_def cong: option.case_cong sum.case_cong if_cong)

lemma find_claude_config_read_json [simp]:
  "find_claude_config (w\<lparr>read_json := r\<rparr>) = find_claude_config w"
  by (simp add: find_claude_config_def possible_locations_def Let_def split: option.split)

lemma resolve_credentials_read_json [simp]:
  "resolve_credentials (w\<lparr>read_json := r\<rparr>) = resolve_credentials w"
  by (simp add: resolve_credentials_def load_variables_def load_env_file_def Let_def
           cong: option.case_cong sum.case_cong if_cong)

lemma print_manual_instructions_read_json [simp]:
  "print_manual_instructions (w\<lparr>read_json := r\<rparr>) = print_manual_instructions w"
  by (simp add: print_manual_instructions_def Let_def)

lemma write_back_read_json [simp]:
  "write_back (w\<lparr>read_json := r\<rparr>) cf doc = write_back w cf doc"
  by (simp add: write_back_def split: option.split)

lemma setup_with_config_read_json [simp]:
  "setup_with_config (w\<lparr>read_json := r\<rparr>) cf config = setup_with_config w cf config"
  by (simp add: setup_with_config_def Let_def cong: option.case_cong sum.case_cong if_cong)

lemma setup_claude_config_read_json:
  "setup_claude_config (w\<lparr>read_json := r\<rparr>) =
     (case find_claude_config w of
        None \<Rightarrow> (finish (Inr False))\<lparr>manual := Some (print_manual_instructions w)\<rparr>
      | Some cf \<Rightarrow>
          (case r cf of
             Inr config \<Rightarrow> setup_with_config w cf config
           | Inl e \<Rightarrow>
               if e = JSONDecodeError \<or> e = FileNotFoundError
               then setup_with_config w cf (JObj []) else finish (Inl e)))"
  by (simp add: setup_claude_config_def read_config_def split: option.splits sum.splits)

section \<open>The claims\<close>

text \<open>
  C1. Whenever the merge returns a document, the input was an object, every top-level
  entry other than \<^verbatim>\<open>mcpServers\<close> is the same as before and in the same order, every server
  entry other than \<^verbatim>\<open>school-tools\<close> is the same as before and in the same order, and
  \<^verbatim>\<open>school-tools\<close> holds the new entry whole, whatever it held before. The merge returns a
  document for every object whose \<^verbatim>\<open>mcpServers\<close> is missing or an object, and what a run
  hands to the write-back is the merge of an entry into the decoded document.
\<close>

theorem merge_preserves_foreign_keys:
  "(mergeable doc \<longrightarrow> (\<exists>doc'. merge_config doc entry = Inr doc')) \<and>
   (\<forall>doc'. merge_config doc entry = Inr doc' \<longrightarrow>
      (\<exists>kvs kvs'. doc = JObj kvs \<and> doc' = JObj kvs' \<and>
         others ''mcpServers'' kvs' = others ''mcpServers'' kvs \<and>
         (\<forall>k. k \<noteq> ''mcpServers'' \<longrightarrow> map_of kvs' k = map_of kvs k) \<and>
         others ''school-tools'' (servers_of kvs') = others ''school-tools'' (servers_of kvs) \<and>
         (\<forall>name. name \<noteq> ''school-tools'' \<longrightarrow>
            map_of (servers_of kvs') name = map_of (servers_of kvs) name) \<and>
         map_of kvs' ''mcpServers'' = Some (JObj (servers_of kvs')) \<and>
         map_of (servers_of kvs') ''school-tools'' = Some entry)) \<and>
   (\<forall>written. write_attempt (setup_with_config w cf doc) = Some written \<longrightarrow>
      (\<exists>fields. merge_config doc (JObj fields) = Inr written))"
proof (intro conjI allI impI)
  assume "mergeable doc"
  then show "\<exists>doc'. merge_config doc entry = Inr doc'"
    by (simp add: merge_config_Inr_iff)
next
  fix written
  assume "write_attempt (setup_with_config w cf doc) = Some written"
  from setup_with_config_written [OF this]
  show "\<exists>fields. merge_config doc (JObj fields) = Inr written"
    by blast
next
  fix doc'
  assume m: "merge_config doc entry = Inr doc'"
  then obtain kvs where doc: "doc = JObj kvs"
    using merge_config_not_JObj [of doc entry] by auto
  define srv' where "srv' = dict_set (servers_of kvs) ''school-tools'' entry"
  define kvs' where "kvs' = dict_set kvs ''mcpServers'' (JObj srv')"
  have doc': "doc' = JObj kvs'"
    using m merge_config_result [of kvs entry doc'] by (simp add: doc kvs'_def srv'_def)
  have srv: "servers_of kvs' = srv'"
    by (simp add: kvs'_def servers_of_dict_set)
  have 1: "others ''mcpServers'' kvs' = others ''mcpServers'' kvs"
    by (simp add: kvs'_def others_dict_set)
  have 2: "\<forall>k. k \<noteq> ''mcpServers'' \<longrightarrow> map_of kvs' k = map_of kvs k"
    by (simp add: kvs'_def map_of_dict_set)
  have 3: "others ''school-tools'' (servers_of kvs') = others ''school-tools'' (servers_of kvs)"
    by (simp add: srv srv'_def others_dict_set)
  have 4: "\<forall>name. name \<noteq> ''school-tools'' \<longrightarrow>
            map_of (servers_of kvs') name = map_of (servers_of kvs) name"
    by (simp add: srv srv'_def map_of_dict_set)
  have 5: "map_of kvs' ''mcpServers'' = Some (JObj (servers_of kvs'))"
    by (simp add: srv) (simp add: kvs'_def map_of_dict_set)
  have 6: "map_of (servers_of kvs') ''school-tools'' = Some entry"
    by (simp add: srv srv'_def map_of_dict_set)
  from doc doc' 1 2 3 4 5 6
  show "\<exists>kvs kvs'. doc = JObj kvs \<and> doc' = JObj kvs' \<and>
         others ''mcpServers'' kvs' = others ''mcpServers'' kvs \<and>
         (\<forall>k. k \<noteq> ''mcpServers'' \<longrightarrow> map_of kvs' k = map_of kvs k) \<and>
         others ''school-tools'' (servers_of kvs') = others ''school-tools'' (servers_of kvs) \<and>
         (\<forall>name. name \<noteq> ''school-tools'' \<longrightarrow>
            map_of (servers_of kvs') name = map_of (servers_of kvs) name) \<and>
         map_of kvs' ''mcpServers'' = Some (JObj (servers_of kvs')) \<and>
         map_of (servers_of kvs') ''school-tools'' = Some entry"
    by blast
qed

text \<open>
  The theorem at the sample document, which has a \<^verbatim>\<open>theme\<close>, a \<^verbatim>\<open>scale\<close>, a server
  \<^verbatim>\<open>files\<close> and an older \<^verbatim>\<open>school-tools\<close> entry with other fields.
\<close>

theorem merge_preserves_foreign_keys_witness:
  "mergeable sample_config \<and>
   (\<exists>kvs'. merge_config sample_config sample_entry = Inr (JObj kvs') \<and>
      others ''mcpServers'' kvs' = [(''theme'', JStr ''dark''), (''scale'', JInt 2)] \<and>
      others ''school-tools'' (servers_of kvs')
        = [(''files'', JObj [(''command'', JStr ''files-server'')])] \<and>
      map_of (servers_of kvs') ''school-tools'' = Some sample_entry)"
proof -
  have ok: "mergeable sample_config"
    by (simp add: sample_config_def)
  obtain doc' where m: "merge_config sample_config sample_entry = Inr doc'"
    using merge_sample by blast
  from merge_preserves_foreign_keys [where doc = sample_config and entry = sample_entry] m
  obtain kvs kvs' where k: "sample_config = JObj kvs" "doc' = JObj kvs'"
      "others ''mcpServers'' kvs' = others ''mcpServers'' kvs"
      "others ''school-tools'' (servers_of kvs') = others ''school-tools'' (servers_of kvs)"
      "map_of (servers_of kvs') ''school-tools'' = Some sample_entry"
    by blast
  from k(1) have kvs: "kvs = [(''theme'', JStr ''dark''),
           (''mcpServers'',
            JObj [(''files'', JObj [(''command'', JStr ''files-server'')]),
                  (''school-tools'', JObj [(''command'', JStr ''old''), (''args'', JArr [])])]),
           (''scale'', JInt 2)]"
    by (simp add: sample_config_def)
  have "others ''mcpServers'' kvs = [(''theme'', JStr ''dark''), (''scale'', JInt 2)]"
    by (simp add: kvs others_def)
  moreover have "others ''school-tools'' (servers_of kvs)
        = [(''files'', JObj [(''command'', JStr ''files-server'')])]"
    by (simp add: kvs others_def servers_of_def)
  ultimately show ?thesis
    using ok m k by auto
qed

text \<open>
  C2. Merging the same entry a second time changes nothing: the second merge returns the
  document of the first, and where the first raises there is no document to merge into
  and the outcome is that exception both times.
\<close>

theorem merge_config_idempotent:
  "(case merge_config doc entry of Inl e \<Rightarrow> Inl e | Inr doc' \<Rightarrow> merge_config doc' entry)
     = merge_config doc entry \<and>
   (\<forall>doc'. merge_config doc entry = Inr doc' \<longrightarrow> merge_config doc' entry = Inr doc')"
proof (cases doc)
  case (JObj kvs)
  then show ?thesis
    by (auto simp: merge_config_JObj map_of_dict_set dict_set_twice
             split: option.splits json.splits)
qed (auto simp: merge_config_def split: sum.splits)

theorem merge_config_idempotent_witness:
  "\<exists>doc'. merge_config sample_config sample_entry = Inr doc' \<and>
          merge_config doc' sample_entry = Inr doc'"
  using merge_config_idempotent [where doc = sample_config and entry = sample_entry] merge_sample
  by auto

text \<open>
  C3. Merging into the empty document gives a document with the single key
  \<^verbatim>\<open>mcpServers\<close>, which holds the single entry \<^verbatim>\<open>school-tools\<close>, equal to the new entry. The
  read yields the empty document when the file has gone missing, when its text is not
  JSON (an empty file is such a text), and when it holds \<^verbatim>\<open>{}\<close>; a run that then gets to
  the write-back writes exactly that one-entry document, with the entry built from the
  resolved paths and the loaded variables.
\<close>

theorem merge_into_empty_or_absent:
  "merge_config (JObj []) entry
     = Inr (JObj [(''mcpServers'', JObj [(''school-tools'', entry)])]) \<and>
   ((read_json w cf = Inl FileNotFoundError \<or> read_json w cf = Inl JSONDecodeError \<or>
     read_json w cf = Inr (JObj [])) \<longrightarrow>
      read_config w cf = Inr (JObj []) \<and>
      (\<forall>doc. find_claude_config w = Some cf \<and>
             write_attempt (setup_claude_config w) = Some doc \<longrightarrow>
         (\<exists>vars. resolve_credentials w = Inr vars \<and>
            doc = JObj [(''mcpServers'',
                         JObj [(''school-tools'',
                                JObj (school_mcp_config (get_script_path w)
                                        (find_python_executable w) vars))])])))"
proof (intro conjI impI allI)
  show "merge_config (JObj []) entry
     = Inr (JObj [(''mcpServers'', JObj [(''school-tools'', entry)])])"
    by (rule merge_into_empty)
next
  assume r: "read_json w cf = Inl FileNotFoundError \<or> read_json w cf = Inl JSONDecodeError \<or>
     read_json w cf = Inr (JObj [])"
  then show c: "read_config w cf = Inr (JObj [])"
    by (auto simp: read_config_def)
  fix doc
  assume "find_claude_config w = Some cf \<and> write_attempt (setup_claude_config w) = Some doc"
  with setup_claude_config_written [of w doc] c
  show "\<exists>vars. resolve_credentials w = Inr vars \<and>
            doc = JObj [(''mcpServers'',
                         JObj [(''school-tools'',
                                JObj (school_mcp_config (get_script_path w)
                                        (find_python_executable w) vars))])]"
    by (auto simp: merge_into_empty)
qed

theorem merge_into_empty_or_absent_witness:
  "read_config (sample_world\<lparr>read_json := (\<lambda>p. Inr (JObj []))\<rparr>)
      ''/home/u/.config/Claude/claude_desktop_config.json'' = Inr (JObj []) \<and>
   main (sample_world\<lparr>read_json := (\<lambda>p. Inr (JObj []))\<rparr>) = SysExit 0 \<and>
   write_attempt (setup_claude_config (sample_world\<lparr>read_json := (\<lambda>p. Inr (JObj []))\<rparr>))
     = Some (JObj [(''mcpServers'',
                    JObj [(''school-tools'',
                           JObj [(''command'', JStr ''/usr/bin/python3''),
                                 (''args'', JArr [JStr ''-m'', JStr ''school_mcp'']),
                                 (''env'', env_json [(''CANVAS_ACCESS_TOKEN'', ''tok''),
                                     (''CANVAS_DOMAIN'', ''canvas.example.edu''),
                                     (''GRADESCOPE_EMAIL'', ''me@example.edu''),
                                     (''GRADESCOPE_PASSWORD'', ''pw'')])])])])"
proof -
  let ?w = "sample_world\<lparr>read_json := (\<lambda>p. Inr (JObj []))\<rparr>"
  let ?cf = "''/home/u/.config/Claude/claude_desktop_config.json''"
  have r: "read_json ?w ?cf = Inr (JObj [])"
    by simp
  have a: "main ?w = SysExit 0"
    by code_simp
  have b: "write_attempt (setup_claude_config ?w)
     = Some (JObj [(''mcpServers'',
                    JObj [(''school-tools'',
                           JObj [(''command'', JStr ''/usr/bin/python3''),
                                 (''args'', JArr [JStr ''-m'', JStr ''school_mcp'']),
                                 (''env'', env_json [(''CANVAS_ACCESS_TOKEN'', ''tok''),
                                     (''CANVAS_DOMAIN'', ''canvas.example.edu''),
                                     (''GRADESCOPE_EMAIL'', ''me@example.edu''),
                                     (''GRADESCOPE_PASSWORD'', ''pw'')])])])])"
    by code_simp
  from merge_into_empty_or_absent [where w = ?w and cf = ?cf] r
  have "read_config ?w ?cf = Inr (JObj [])"
    by blast
  with a b show ?thesis by simp
qed

text \<open>
  The two exceptions that the handler of the read names are the same case: with
  \<^verbatim>\<open>JSONDecodeError\<close> as with \<^verbatim>\<open>FileNotFoundError\<close> the read gives the empty document, the rest
  of the run is the run from the empty document, the two runs agree in everything they
  return, print and write, and any document written has the one-entry shape.
\<close>

lemma json_decode_error_as_absent:
  assumes "find_claude_config w = Some cf"
    and "r1 cf = Inl JSONDecodeError" and "r2 cf = Inl FileNotFoundError"
  shows "read_config (w\<lparr>read_json := r1\<rparr>) cf = Inr (JObj []) \<and>
         read_config (w\<lparr>read_json := r2\<rparr>) cf = Inr (JObj []) \<and>
         setup_claude_config (w\<lparr>read_json := r1\<rparr>) = setup_with_config w cf (JObj []) \<and>
         setup_claude_config (w\<lparr>read_json := r2\<rparr>) = setup_with_config w cf (JObj []) \<and>
         main (w\<lparr>read_json := r1\<rparr>) = main (w\<lparr>read_json := r2\<rparr>) \<and>
         (\<forall>entry.
            (case read_config (w\<lparr>read_json := r1\<rparr>) cf of
               Inl e \<Rightarrow> Inl e | Inr config \<Rightarrow> merge_config config entry)
            = Inr (JObj [(''mcpServers'', JObj [(''school-tools'', entry)])]) \<and>
            (case read_config (w\<lparr>read_json := r2\<rparr>) cf of
               Inl e \<Rightarrow> Inl e | Inr config \<Rightarrow> merge_config config entry)
            = Inr (JObj [(''mcpServers'', JObj [(''school-tools'', entry)])])) \<and>
         (\<forall>doc. write_attempt (setup_claude_config (w\<lparr>read_json := r1\<rparr>)) = Some doc \<longrightarrow>
            (\<exists>entry. doc = JObj [(''mcpServers'', JObj [(''school-tools'', entry)])]))"
proof -
  have 1: "read_config (w\<lparr>read_json := r1\<rparr>) cf = Inr (JObj [])"
    and 2: "read_config (w\<lparr>read_json := r2\<rparr>) cf = Inr (JObj [])"
    using assms by (simp_all add: read_config_def)
  have 3: "setup_claude_config (w\<lparr>read_json := r1\<rparr>) = setup_with_config w cf (JObj [])"
    and 4: "setup_claude_config (w\<lparr>read_json := r2\<rparr>) = setup_with_config w cf (JObj [])"
    using assms by (simp_all add: setup_claude_config_read_json)
  have 5: "main (w\<lparr>read_json := r1\<rparr>) = main (w\<lparr>read_json := r2\<rparr>)"
    by (simp add: main_def 3 4)
  have 6: "\<exists>entry. doc = JObj [(''mcpServers'', JObj [(''school-tools'', entry)])]"
    if "write_attempt (setup_claude_config (w\<lparr>read_json := r1\<rparr>)) = Some doc" for doc
    using that setup_with_config_written [of w cf "JObj []" doc]
    by (auto simp: 3 merge_into_empty)
  have 7: "(case read_config (w\<lparr>read_json := r1\<rparr>) cf of
               Inl e \<Rightarrow> Inl e | Inr config \<Rightarrow> merge_config config entry)
            = Inr (JObj [(''mcpServers'', JObj [(''school-tools'', entry)])]) \<and>
            (case read_config (w\<lparr>read_json := r2\<rparr>) cf of
               Inl e \<Rightarrow> Inl e | Inr config \<Rightarrow> merge_config config entry)
            = Inr (JObj [(''mcpServers'', JObj [(''school-tools'', entry)])])" for entry
    by (simp add: 1 2 merge_into_empty)
  from 1 2 3 4 5 6 7 show ?thesis by blast
qed

lemma json_decode_error_as_absent_sample:
  "find_claude_config sample_world = Some ''/home/u/.config/Claude/claude_desktop_config.json'' \<and>
   main (sample_world\<lparr>read_json := (\<lambda>p. Inl JSONDecodeError)\<rparr>) = SysExit 0 \<and>
   main (sample_world\<lparr>read_json := (\<lambda>p. Inl FileNotFoundError)\<rparr>) = SysExit 0 \<and>
   setup_claude_config (sample_world\<lparr>read_json := (\<lambda>p. Inl JSONDecodeError)\<rparr>)
     = setup_claude_config (sample_world\<lparr>read_json := (\<lambda>p. Inl FileNotFoundError)\<rparr>) \<and>
   write_attempt (setup_claude_config (sample_world\<lparr>read_json := (\<lambda>p. Inl JSONDecodeError)\<rparr>))
     = Some (JObj [(''mcpServers'',
                    JObj [(''school-tools'',
                           JObj [(''command'', JStr ''/usr/bin/python3''),
                                 (''args'', JArr [JStr ''-m'', JStr ''school_mcp'']),
                                 (''env'', env_json [(''CANVAS_ACCESS_TOKEN'', ''tok''),
                                     (''CANVAS_DOMAIN'', ''canvas.example.edu''),
                                     (''GRADESCOPE_EMAIL'', ''me@example.edu''),
                                     (''GRADESCOPE_PASSWORD'', ''pw'')])])])])"
proof -
  let ?cf = "''/home/u/.config/Claude/claude_desktop_config.json''"
  let ?w1 = "sample_world\<lparr>read_json := (\<lambda>p. Inl JSONDecodeError)\<rparr>"
  let ?w2 = "sample_world\<lparr>read_json := (\<lambda>p. Inl FileNotFoundError)\<rparr>"
  have a: "find_claude_config sample_world = Some ?cf"
    by code_simp
  have b: "main ?w1 = SysExit 0"
    by code_simp
  have c: "write_attempt (setup_claude_config ?w1)
     = Some (JObj [(''mcpServers'',
                    JObj [(''school-tools'',
                           JObj [(''command'', JStr ''/usr/bin/python3''),
                                 (''args'', JArr [JStr ''-m'', JStr ''school_mcp'']),
                                 (''env'', env_json [(''CANVAS_ACCESS_TOKEN'', ''tok''),
                                     (''CANVAS_DOMAIN'', ''canvas.example.edu''),
                                     (''GRADESCOPE_EMAIL'', ''me@example.edu''),
                                     (''GRADESCOPE_PASSWORD'', ''pw'')])])])])"
    by code_simp
  from json_decode_error_as_absent [of sample_world ?cf "\<lambda>p. Inl JSONDecodeError" "\<lambda>p. Inl FileNotFoundError"] a
  have d: "setup_claude_config ?w1 = setup_claude_config ?w2" and e: "main ?w1 = main ?w2"
    by simp_all
  from a b c d e show ?thesis
    by simp
qed

text \<open>Any other exception of the read leaves the run as it is raised.\<close>

lemma unhandled_read_error:
  assumes "find_claude_config w = Some cf" and "read_json w cf = Inl e"
    and "e \<noteq> JSONDecodeError" and "e \<noteq> FileNotFoundError"
  shows "setup_claude_config w = finish (Inl e)" and "main w = Traceback e"
  using assms by (simp_all add: main_def setup_claude_config_def read_config_def)

text \<open>
  C4. The comment at line 160 says that a file that is not valid JSON starts the run from
  an empty configuration, as a missing file does. The handler at line 159 names
  \<^verbatim>\<open>JSONDecodeError\<close> and \<^verbatim>\<open>FileNotFoundError\<close> only. A file whose bytes cannot be decoded
  is not valid JSON either, and reading it raises \<^verbatim>\<open>UnicodeDecodeError\<close>, which the handler
  lets through: the read is fatal, the run ends in a traceback with nothing written,
  while the run on the vanished file goes on from the empty document and exits with 0.
\<close>

theorem undecodable_config_crashes:
  "find_claude_config undecodable_world
     = Some ''/home/u/.config/Claude/claude_desktop_config.json'' \<and>
   read_json undecodable_world ''/home/u/.config/Claude/claude_desktop_config.json''
     = Inl UnicodeDecodeError \<and>
   read_config undecodable_world ''/home/u/.config/Claude/claude_desktop_config.json''
     = Inl UnicodeDecodeError \<and>
   setup_claude_config undecodable_world = finish (Inl UnicodeDecodeError) \<and>
   main undecodable_world = Traceback UnicodeDecodeError \<and>
   write_attempt (setup_claude_config undecodable_world) = None \<and>
   read_config vanished_world ''/home/u/.config/Claude/claude_desktop_config.json''
     = Inr (JObj []) \<and>
   main vanished_world = SysExit 0 \<and>
   main undecodable_world \<noteq> main vanished_world"
  by code_simp

text \<open>
  C5. On the text of the specification's example the parser returns the two pairs, as
  \<open>load_env_example\<close> shows, and on any text with a malformed line it raises
  \<^verbatim>\<open>ValueError\<close>, as \<open>load_env_file_malformed\<close> shows. That exception is the failed unpacking
  of the split, and nothing between the parser and the end of the process handles it: with
  a stray word on the last line of an otherwise complete \<^verbatim>\<open>.env\<close>, the run ends in a
  traceback.
\<close>

theorem stray_word_crashes:
  "path_exists stray_word_world ''/work/.env'' \<and>
   read_text stray_word_world ''/work/.env'' = Inr (sample_env_text @ ''DEBUG'') \<and>
   load_env_file stray_word_world ''/work/.env'' = Inl ValueError \<and>
   setup_claude_config stray_word_world = finish (Inl ValueError) \<and>
   main stray_word_world = Traceback ValueError"
  by code_simp

text \<open>
  C6. The runtime resolver returns the first candidate whose probe prints the sentinel,
  where the candidates are the current runtime and then the alternates that the search
  path resolves, in the fixed order. When no alternate's probe succeeds it returns the
  current runtime, and so it does when every probe raises: a probe that raises counts as
  a probe that fails, and the resolver has a result in every world.
\<close>

theorem runtime_resolution:
  "find_python_executable w = first_successful_probe w \<and>
   (list_all (\<lambda>p. \<not> probe w p) (alternates w) \<longrightarrow> find_python_executable w = sys_executable w) \<and>
   ((\<forall>exe. \<exists>e. subprocess_run w exe = Inl e) \<longrightarrow> find_python_executable w = sys_executable w)"
proof -
  have eq: "find_python_executable w = first_successful_probe w"
    by (simp add: find_python_executable_def first_successful_probe_def alternates_def
          try_python_cmds_find)
  have none: "find_python_executable w = sys_executable w"
    if "list_all (\<lambda>p. \<not> probe w p) (alternates w)"
  proof -
    from that have "List.find (probe w) (alternates w) = None"
      by (simp add: find_None_iff list_all_iff)
    then show ?thesis
      by (simp add: eq first_successful_probe_def)
  qed
  have raise: "find_python_executable w = sys_executable w"
    if "\<forall>exe. \<exists>e. subprocess_run w exe = Inl e"
  proof -
    from that have "probe w p = False" for p
      by (metis probe_def old.sum.simps(5))
    then show ?thesis
      using none by (simp add: list_all_iff)
  qed
  from eq none raise show ?thesis by blast
qed

theorem runtime_resolution_witness:
  "find_python_executable alternate_world = ''/opt/b/python3.11'' \<and>
   first_successful_probe alternate_world = ''/opt/b/python3.11'' \<and>
   alternates silent_world = [''/opt/a/python3'', ''/opt/b/python3.11''] \<and>
   list_all (\<lambda>p. \<not> probe silent_world p) (alternates silent_world) \<and>
   find_python_executable silent_world = sys_executable silent_world \<and>
   (\<forall>exe. \<exists>e. subprocess_run raising_world exe = Inl e) \<and>
   find_python_executable raising_world = ''/usr/bin/python3''"
proof -
  have a: "first_successful_probe alternate_world = ''/opt/b/python3.11''"
    by code_simp
  have b: "alternates silent_world = [''/opt/a/python3'', ''/opt/b/python3.11'']"
    by code_simp
  have c: "list_all (\<lambda>p. \<not> probe silent_world p) (alternates silent_world)"
    by code_simp
  have d: "\<forall>exe. \<exists>e. subprocess_run raising_world exe = Inl e"
    by (simp add: raising_world_def sample_world_def)
  have e: "sys_executable raising_world = ''/usr/bin/python3''"
    by (simp add: raising_world_def sample_world_def)
  from runtime_resolution [of alternate_world] a
  have 1: "find_python_executable alternate_world = ''/opt/b/python3.11''"
    by simp
  from runtime_resolution [of silent_world] c
  have 2: "find_python_executable silent_world = sys_executable silent_world"
    by blast
  from runtime_resolution [of raising_world] d
  have "find_python_executable raising_world = sys_executable raising_world"
    by blast
  with e have 3: "find_python_executable raising_world = ''/usr/bin/python3''"
    by simp
  from 1 a b c 2 d 3 show ?thesis
    by (intro conjI)
qed

text \<open>
  C7. The package locator returns \<^verbatim>\<open>None\<close> exactly when each of its four strategies fails.
  In that case the process ends with status 1, and the write-back of the configuration is
  never reached.
\<close>

theorem package_absent_is_fatal:
  "(get_package_path w = Inr None \<longleftrightarrow> every_strategy_fails w) \<and>
   (every_strategy_fails w \<longrightarrow>
      exit_status (main w) = 1 \<and>
      write_attempt (setup_claude_config w) = None \<and>
      \<not> write_done (setup_claude_config w))"
proof (intro conjI impI)
  show "get_package_path w = Inr None \<longleftrightarrow> every_strategy_fails w"
    by (rule get_package_path_None_iff)
next
  assume "every_strategy_fails w"
  then have none: "get_package_path w = Inr None"
    by (simp add: get_package_path_None_iff)
  show att: "write_attempt (setup_claude_config w) = None"
  proof (rule ccontr)
    assume "write_attempt (setup_claude_config w) \<noteq> None"
    then obtain doc where "write_attempt (setup_claude_config w) = Some doc" by auto
    from setup_claude_config_written [OF this] none show False by auto
  qed
  show "\<not> write_done (setup_claude_config w)"
    using att write_done_attempt [of w] by auto
  show "exit_status (main w) = 1"
    using att setup_claude_config_success [of w] by (auto simp: exit_status_main)
qed

theorem package_absent_is_fatal_witness:
  "every_strategy_fails no_package_world \<and>
   get_package_path no_package_world = Inr None \<and>
   main no_package_world = SysExit 1 \<and>
   exit_status (main no_package_world) = 1 \<and>
   write_attempt (setup_claude_config no_package_world) = None \<and>
   \<not> write_done (setup_claude_config no_package_world)"
proof -
  have a: "every_strategy_fails no_package_world"
    by code_simp
  have b: "main no_package_world = SysExit 1"
    by code_simp
  from package_absent_is_fatal [of no_package_world] a b show ?thesis by simp
qed

text \<open>
  C8. The handler at lines 259 to 262 covers the write-back only (\<open>write_failure_reported\<close>,
  \<open>mergeable_run_outcomes\<close>), and a run returns \<^verbatim>\<open>True\<close> only after the write went through
  (\<open>setup_claude_config_success\<close>). The assignment at line 248 stands before the \<^verbatim>\<open>try\<close>:
  with a configuration whose \<^verbatim>\<open>mcpServers\<close> is a list, or \<^verbatim>\<open>null\<close>, it raises \<^verbatim>\<open>TypeError\<close>,
  the run ends in a traceback, and the manual instructions are not printed.
\<close>

theorem merge_type_error_uncaught:
  "read_json list_servers_world ''/home/u/.config/Claude/claude_desktop_config.json''
     = Inr (JObj [(''mcpServers'', JArr [])]) \<and>
   setup_claude_config list_servers_world = finish (Inl TypeError) \<and>
   main list_servers_world = Traceback TypeError \<and>
   manual (setup_claude_config list_servers_world) = None \<and>
   main null_servers_world = Traceback TypeError \<and>
   manual (setup_claude_config null_servers_world) = None"
  by code_simp

text \<open>
  C9. The script resolver looks the script name up on the search path first, with the
  suffix \<^verbatim>\<open>.exe\<close> on Windows, and returns the hit; without a hit it returns the path in
  \<^verbatim>\<open>bin\<close> (\<^verbatim>\<open>Scripts\<close> on Windows) beside the resolved runtime if that exists, and \<^verbatim>\<open>None\<close>
  otherwise. Without a script, the entry that a run writes has the resolved runtime as
  its command and \<^verbatim>\<open>["-m", "school_mcp"]\<close> as its arguments; and whether there is a script
  plays no part in whether the run gets to the write-back.
\<close>

theorem script_resolution:
  "script_name w = (if sys_platform w = ''win32'' then ''school-mcp.exe'' else ''school-mcp'') \<and>
   (truthy (shutil_which w (script_name w)) \<longrightarrow>
      get_script_path w = shutil_which w (script_name w)) \<and>
   (\<not> truthy (shutil_which w (script_name w)) \<longrightarrow>
      get_script_path w =
        (if path_exists w (beside_runtime w) then Some (beside_runtime w) else None)) \<and>
   (\<forall>doc. \<not> truthy (get_script_path w) \<and>
          write_attempt (setup_claude_config w) = Some doc \<longrightarrow>
      (\<exists>fields. school_tools_entry doc = Some (JObj fields) \<and>
         map_of fields ''command'' = Some (JStr (find_python_executable w)) \<and>
         map_of fields ''args'' = Some (JArr [JStr ''-m'', JStr ''school_mcp'']))) \<and>
   (\<forall>cf config pkg vars.
      find_claude_config w = Some cf \<and> read_config w cf = Inr config \<and> mergeable config \<and>
      get_package_path w = Inr pkg \<and> truthy pkg \<and> resolve_credentials w = Inr vars \<longrightarrow>
      (\<exists>doc. write_attempt (setup_claude_config w) = Some doc))"
proof (intro conjI impI allI)
  show "script_name w = (if sys_platform w = ''win32'' then ''school-mcp.exe'' else ''school-mcp'')"
    by (simp add: script_name_def)
next
  assume "truthy (shutil_which w (script_name w))"
  then show "get_script_path w = shutil_which w (script_name w)"
    by (simp add: get_script_path_def)
next
  assume "\<not> truthy (shutil_which w (script_name w))"
  then show "get_script_path w =
        (if path_exists w (beside_runtime w) then Some (beside_runtime w) else None)"
    by (simp add: get_script_path_def beside_runtime_def Let_def)
next
  fix doc
  assume a: "\<not> truthy (get_script_path w) \<and> write_attempt (setup_claude_config w) = Some doc"
  then obtain config vars where m: "merge_config config
             (JObj (school_mcp_config (get_script_path w) (find_python_executable w) vars))
             = Inr doc"
    using setup_claude_config_written [of w doc] by blast
  let ?fields = "school_mcp_config (get_script_path w) (find_python_executable w) vars"
  have "school_tools_entry doc = Some (JObj ?fields)"
    using m by (rule merge_config_entry)
  moreover have "map_of ?fields ''command'' = Some (JStr (find_python_executable w))"
    and "map_of ?fields ''args'' = Some (JArr [JStr ''-m'', JStr ''school_mcp''])"
    using a by (simp_all add: school_mcp_config_module module_entry_def)
  ultimately show "\<exists>fields. school_tools_entry doc = Some (JObj fields) \<and>
         map_of fields ''command'' = Some (JStr (find_python_executable w)) \<and>
         map_of fields ''args'' = Some (JArr [JStr ''-m'', JStr ''school_mcp''])"
    by blast
next
  fix cf config pkg vars
  assume a: "find_claude_config w = Some cf \<and> read_config w cf = Inr config \<and> mergeable config \<and>
      get_package_path w = Inr pkg \<and> truthy pkg \<and> resolve_credentials w = Inr vars"
  then obtain doc where "merge_config config
       (JObj (school_mcp_config (get_script_path w) (find_python_executable w) vars)) = Inr doc"
    using merge_config_Inr_iff by blast
  with a have "setup_with_config w cf config = write_back w cf doc"
    using setup_with_config_reaches_write by blast
  with a have "write_attempt (setup_claude_config w) = Some doc"
    by (simp add: setup_claude_config_def write_back_simps)
  then show "\<exists>doc. write_attempt (setup_claude_config w) = Some doc" ..
qed

theorem script_resolution_witness:
  "get_script_path script_world = Some ''/usr/local/bin/school-mcp'' \<and>
   get_script_path beside_world = Some ''/usr/bin/bin/school-mcp'' \<and>
   get_script_path sample_world = None \<and>
   main sample_world = SysExit 0 \<and>
   (\<exists>doc fields. write_attempt (setup_claude_config sample_world) = Some doc \<and>
      school_tools_entry doc = Some (JObj fields) \<and>
      map_of fields ''command'' = Some (JStr ''/usr/bin/python3'') \<and>
      map_of fields ''args'' = Some (JArr [JStr ''-m'', JStr ''school_mcp'']))"
proof -
  have w1: "truthy (shutil_which script_world (script_name script_world))"
    and w2: "shutil_which script_world (script_name script_world)
               = Some ''/usr/local/bin/school-mcp''"
    by code_simp+
  have b1: "\<not> truthy (shutil_which beside_world (script_name beside_world))"
    and b2: "path_exists beside_world (beside_runtime beside_world)"
    and b3: "beside_runtime beside_world = ''/usr/bin/bin/school-mcp''"
    by code_simp+
  have s1: "\<not> truthy (shutil_which sample_world (script_name sample_world))"
    and s2: "\<not> path_exists sample_world (beside_runtime sample_world)"
    and s3: "main sample_world = SysExit 0"
    and s4: "returned (setup_claude_config sample_world) = Inr True"
    and s5: "find_python_executable sample_world = ''/usr/bin/python3''"
    by code_simp+
  from script_resolution [of script_world] w1 w2
  have 1: "get_script_path script_world = Some ''/usr/local/bin/school-mcp''"
    by simp
  from script_resolution [of beside_world] b1 b2 b3
  have 2: "get_script_path beside_world = Some ''/usr/bin/bin/school-mcp''"
    by simp
  from script_resolution [of sample_world] s1 s2
  have 3: "get_script_path sample_world = None"
    by simp
  from setup_claude_config_success [OF s4]
  obtain doc where d: "write_attempt (setup_claude_config sample_world) = Some doc"
    by blast
  from script_resolution [of sample_world] 3 d
  obtain fields where "school_tools_entry doc = Some (JObj fields)"
      "map_of fields ''command'' = Some (JStr (find_python_executable sample_world))"
      "map_of fields ''args'' = Some (JArr [JStr ''-m'', JStr ''school_mcp''])"
    by (metis truthy.simps(1))
  with d s5 have "\<exists>doc fields. write_attempt (setup_claude_config sample_world) = Some doc \<and>
      school_tools_entry doc = Some (JObj fields) \<and>
      map_of fields ''command'' = Some (JStr ''/usr/bin/python3'') \<and>
      map_of fields ''args'' = Some (JArr [JStr ''-m'', JStr ''school_mcp''])"
    by auto
  with 1 2 3 s3 show ?thesis by blast
qed

text \<open>
  C10. The entry has an \<^verbatim>\<open>env\<close> field exactly when the variables are not empty, and then the
  field holds them. For a run that reaches the write-back, the variables are what the
  parser returns for \<^verbatim>\<open>.env\<close> (nothing, when there is no such file), so the entry written
  under \<^verbatim>\<open>school-tools\<close> has an \<^verbatim>\<open>env\<close> field exactly when the parsed mapping is not empty.
\<close>

theorem env_field_iff_credentials:
  "(dict_has (school_mcp_config sp py vars) ''env'' \<longleftrightarrow> vars \<noteq> []) \<and>
   (vars \<noteq> [] \<longrightarrow> map_of (school_mcp_config sp py vars) ''env'' = Some (env_json vars)) \<and>
   (\<forall>doc. write_attempt (setup_claude_config w) = Some doc \<longrightarrow>
      (\<exists>parsed fields.
         load_env_file w (path_join w (os_getcwd w) ''.env'') = Inr parsed \<and>
         school_tools_entry doc = Some (JObj fields) \<and>
         (dict_has fields ''env'' \<longleftrightarrow> parsed \<noteq> []) \<and>
         (parsed \<noteq> [] \<longrightarrow> map_of fields ''env'' = Some (env_json parsed))))"
proof (intro conjI impI allI)
  show "dict_has (school_mcp_config sp py vars) ''env'' \<longleftrightarrow> vars \<noteq> []"
    by (rule school_mcp_config_env)
next
  assume "vars \<noteq> []"
  then show "map_of (school_mcp_config sp py vars) ''env'' = Some (env_json vars)"
    by (rule school_mcp_config_env_value)
next
  fix doc
  assume "write_attempt (setup_claude_config w) = Some doc"
  then obtain config parsed where c: "resolve_credentials w = Inr parsed"
    and m: "merge_config config
             (JObj (school_mcp_config (get_script_path w) (find_python_executable w) parsed))
             = Inr doc"
    using setup_claude_config_written [of w doc] by blast
  let ?fields = "school_mcp_config (get_script_path w) (find_python_executable w) parsed"
  have 1: "load_env_file w (path_join w (os_getcwd w) ''.env'') = Inr parsed"
    using c by (rule resolve_credentials_vars)
  have 2: "school_tools_entry doc = Some (JObj ?fields)"
    using m by (rule merge_config_entry)
  have 3: "dict_has ?fields ''env'' \<longleftrightarrow> parsed \<noteq> []"
    by (rule school_mcp_config_env)
  have 4: "parsed \<noteq> [] \<longrightarrow> map_of ?fields ''env'' = Some (env_json parsed)"
    by (simp add: school_mcp_config_env_value)
  from 1 2 3 4
  show "\<exists>parsed fields.
         load_env_file w (path_join w (os_getcwd w) ''.env'') = Inr parsed \<and>
         school_tools_entry doc = Some (JObj fields) \<and>
         (dict_has fields ''env'' \<longleftrightarrow> parsed \<noteq> []) \<and>
         (parsed \<noteq> [] \<longrightarrow> map_of fields ''env'' = Some (env_json parsed))"
    by blast
qed

theorem env_field_iff_credentials_witness:
  "(\<exists>doc fields. write_attempt (setup_claude_config sample_world) = Some doc \<and>
      school_tools_entry doc = Some (JObj fields) \<and> dict_has fields ''env'' \<and>
      map_of fields ''env'' =
        Some (env_json [(''CANVAS_ACCESS_TOKEN'', ''tok''),
                        (''CANVAS_DOMAIN'', ''canvas.example.edu''),
                        (''GRADESCOPE_EMAIL'', ''me@example.edu''),
                        (''GRADESCOPE_PASSWORD'', ''pw'')])) \<and>
   path_exists empty_env_world ''/work/.env'' \<and>
   load_env_file empty_env_world ''/work/.env'' = Inr [] \<and>
   main empty_env_world = SysExit 0 \<and>
   (\<exists>doc fields. write_attempt (setup_claude_config empty_env_world) = Some doc \<and>
      school_tools_entry doc = Some (JObj fields) \<and> \<not> dict_has fields ''env'')"
proof -
  have s1: "returned (setup_claude_config sample_world) = Inr True"
    and s2: "load_env_file sample_world (path_join sample_world (os_getcwd sample_world) ''.env'')
       = Inr [(''CANVAS_ACCESS_TOKEN'', ''tok''), (''CANVAS_DOMAIN'', ''canvas.example.edu''),
              (''GRADESCOPE_EMAIL'', ''me@example.edu''), (''GRADESCOPE_PASSWORD'', ''pw'')]"
    by code_simp+
  have e1: "returned (setup_claude_config empty_env_world) = Inr True"
    and e2: "load_env_file empty_env_world
               (path_join empty_env_world (os_getcwd empty_env_world) ''.env'') = Inr []"
    and e3: "path_exists empty_env_world ''/work/.env''"
    and e4: "load_env_file empty_env_world ''/work/.env'' = Inr []"
    and e5: "main empty_env_world = SysExit 0"
    by code_simp+
  from setup_claude_config_success [OF s1]
  obtain doc where d: "write_attempt (setup_claude_config sample_world) = Some doc"
    by blast
  from env_field_iff_credentials [where w = sample_world] d s2
  have 1: "\<exists>doc fields. write_attempt (setup_claude_config sample_world) = Some doc \<and>
      school_tools_entry doc = Some (JObj fields) \<and> dict_has fields ''env'' \<and>
      map_of fields ''env'' =
        Some (env_json [(''CANVAS_ACCESS_TOKEN'', ''tok''),
                        (''CANVAS_DOMAIN'', ''canvas.example.edu''),
                        (''GRADESCOPE_EMAIL'', ''me@example.edu''),
                        (''GRADESCOPE_PASSWORD'', ''pw'')])"
    by fastforce
  from setup_claude_config_success [OF e1]
  obtain doc' where d': "write_attempt (setup_claude_config empty_env_world) = Some doc'"
    by blast
  from env_field_iff_credentials [where w = empty_env_world] d' e2
  have 2: "\<exists>doc fields. write_attempt (setup_claude_config empty_env_world) = Some doc \<and>
      school_tools_entry doc = Some (JObj fields) \<and> \<not> dict_has fields ''env''"
    by fastforce
  from 1 2 e3 e4 e5 show ?thesis by blast
qed

end
